theory Spec2Isabelle
  imports Main "HOL-Library.Sublist"
begin

section \<open>Python values the scripts rely on\<close>

text \<open>
  The exceptions that the modelled code can meet. \<open>OSError\<close> stands for every failure of
  \<open>open\<close> or \<open>to_csv\<close> other than a missing file, \<open>OtherException\<close> for any other
  subclass of \<open>Exception\<close> raised by a collaborator (the SFTP session, gzip).
\<close>

datatype exn =
    IndexError
  | ValueError
  | FileNotFoundError
  | OSError
  | UnboundLocalError
  | BadGzipFile
  | OtherException

text \<open>Sequencing of computations that may raise: the first exception wins.\<close>

definition bind :: "exn + 'a \<Rightarrow> ('a \<Rightarrow> exn + 'b) \<Rightarrow> exn + 'b" where
  "bind m f = (case m of Inl e \<Rightarrow> Inl e | Inr v \<Rightarrow> f v)"

text \<open>\<open>xs[i]\<close> for a literal index \<open>i \<ge> 0\<close>: out of range raises IndexError.\<close>

definition getitem :: "'a list \<Rightarrow> nat \<Rightarrow> exn + 'a" where
  "getitem xs i = (if i < length xs then Inr (xs ! i) else Inl IndexError)"

text \<open>
  \<open>s.split(sep)\<close> for a non-empty separator: cut at every occurrence of \<open>sep\<close>, scanning
  from the left without overlap; the result always has at least one element. \<open>cur\<close> is the
  piece read so far.
\<close>

fun split_aux :: "string \<Rightarrow> string \<Rightarrow> string \<Rightarrow> string list" where
  "split_aux sep cur [] = [cur]"
| "split_aux sep cur (c # cs) =
     (if prefix sep (c # cs)
      then cur # split_aux sep [] (drop (length sep - 1) cs)
      else split_aux sep (cur @ [c]) cs)"

definition split :: "string \<Rightarrow> string \<Rightarrow> string list" where
  "split s sep = split_aux sep [] s"

text \<open>\<open>s.split(sep, 1)\<close>: cut at the first occurrence only.\<close>

fun split1_aux :: "string \<Rightarrow> string \<Rightarrow> string \<Rightarrow> string list" where
  "split1_aux sep cur [] = [cur]"
| "split1_aux sep cur (c # cs) =
     (if prefix sep (c # cs)
      then [cur, drop (length sep - 1) cs]
      else split1_aux sep (cur @ [c]) cs)"

definition split1 :: "string \<Rightarrow> string \<Rightarrow> string list" where
  "split1 s sep = split1_aux sep [] s"

text \<open>\<open>sep.join(xs)\<close>.\<close>

fun join :: "string \<Rightarrow> string list \<Rightarrow> string" where
  "join sep [] = []"
| "join sep [x] = x"
| "join sep (x # y # ys) = x @ sep @ join sep (y # ys)"

text \<open>\<open>s.strip(chars)\<close> and \<open>s.strip()\<close>; the latter removes the characters that
  \<open>str.isspace\<close> accepts (among the first 256 code points).\<close>

definition strip_chars :: "string \<Rightarrow> string \<Rightarrow> string" where
  "strip_chars s chars =
     rev (dropWhile (\<lambda>c. c \<in> set chars) (rev (dropWhile (\<lambda>c. c \<in> set chars) s)))"

definition whitespace :: string where
  "whitespace = [CHR 0x09, CHR 0x0A, CHR 0x0B, CHR 0x0C, CHR 0x0D, CHR 0x1C, CHR 0x1D,
                 CHR 0x1E, CHR 0x1F, CHR 0x20, CHR 0x85, CHR 0xA0]"

definition strip :: "string \<Rightarrow> string" where
  "strip s = strip_chars s whitespace"

text \<open>The double-quote character and the one-character strings used as separators.\<close>

definition dq :: string where
  "dq = [CHR 0x22]"

definition sp :: string where
  "sp = '' ''"

section \<open>Timestamps: \<open>pd.to_datetime(column, format=..., errors='coerce')\<close>\<close>

text \<open>
  The conversion is a library call; it is modelled for the directives the two format
  strings use. Each directive is the alternation of the strptime pattern table, tried in
  its order with backtracking, so a directive yields the list of its possible matches:
  \<open>%d\<close> is \<open>3[0-1]|[1-2]\d|0[1-9]|[1-9]| [1-9]\<close>, \<open>%m\<close> is \<open>1[0-2]|0[1-9]|[1-9]\<close>,
  \<open>%H\<close> is \<open>2[0-3]|[0-1]\d|\d\<close>, \<open>%M\<close> is \<open>[0-5]\d|\d\<close>, \<open>%S\<close> is
  \<open>6[0-1]|[0-5]\d|\d\<close>, \<open>%Y\<close> is four digits, \<open>%b\<close> an abbreviated English month name
  (case ignored); a blank in the format matches one or more blanks; the whole string must
  match. A match that is no calendar date, has a second above 59, or lies outside the
  range of a nanosecond timestamp is an error, and \<open>errors='coerce'\<close> turns every error
  into the null timestamp, here \<open>None\<close>.
\<close>

record timestamp =
  year :: nat
  month :: nat
  day :: nat
  hour :: nat
  minute :: nat
  second :: nat

datatype field = Year | Month | Day | Hour | Minute | Second

definition is_digit :: "char \<Rightarrow> bool" where
  "is_digit c = (48 \<le> (of_char c :: nat) \<and> (of_char c :: nat) \<le> 57)"

definition digit_val :: "char \<Rightarrow> nat" where
  "digit_val c = of_char c - 48"

text \<open>One digit, resp. two digits, whose value lies in \<open>lo..hi\<close>.\<close>

fun num1 :: "nat \<Rightarrow> nat \<Rightarrow> string \<Rightarrow> (nat \<times> string) list" where
  "num1 lo hi (a # r) =
     (if is_digit a \<and> lo \<le> digit_val a \<and> digit_val a \<le> hi then [(digit_val a, r)] else [])"
| "num1 lo hi [] = []"

fun num2 :: "nat \<Rightarrow> nat \<Rightarrow> string \<Rightarrow> (nat \<times> string) list" where
  "num2 lo hi (a # b # r) =
     (if is_digit a \<and> is_digit b \<and> lo \<le> 10 * digit_val a + digit_val b
         \<and> 10 * digit_val a + digit_val b \<le> hi
      then [(10 * digit_val a + digit_val b, r)] else [])"
| "num2 lo hi s = []"

fun num4 :: "string \<Rightarrow> (nat \<times> string) list" where
  "num4 (a # b # c # d # r) =
     (if is_digit a \<and> is_digit b \<and> is_digit c \<and> is_digit d
      then [(1000 * digit_val a + 100 * digit_val b + 10 * digit_val c + digit_val d, r)]
      else [])"
| "num4 s = []"

definition lower :: "char \<Rightarrow> char" where
  "lower c = (if 65 \<le> (of_char c :: nat) \<and> (of_char c :: nat) \<le> 90
              then char_of ((of_char c :: nat) + 32) else c)"

definition month_names :: "string list" where
  "month_names = [''jan'', ''feb'', ''mar'', ''apr'', ''may'', ''jun'',
                  ''jul'', ''aug'', ''sep'', ''oct'', ''nov'', ''dec'']"

definition month_abbr :: "string \<Rightarrow> (nat \<times> string) list" where
  "month_abbr s =
     concat (map (\<lambda>i. if map lower (take 3 s) = month_names ! i then [(Suc i, drop 3 s)] else [])
                 [0..<12])"

text \<open>The matches of one directive at the head of the text.\<close>

definition directive :: "char \<Rightarrow> string \<Rightarrow> (field \<times> nat \<times> string) list" where
  "directive d s =
     (if d = CHR ''d'' then
        map (Pair Day) (num2 1 31 s @ num1 1 9 s
                        @ (case s of c # r \<Rightarrow> if c = CHR '' '' then num1 1 9 r else [] | [] \<Rightarrow> []))
      else if d = CHR ''m'' then map (Pair Month) (num2 1 12 s @ num1 1 9 s)
      else if d = CHR ''b'' then map (Pair Month) (month_abbr s)
      else if d = CHR ''Y'' then map (Pair Year) (num4 s)
      else if d = CHR ''H'' then map (Pair Hour) (num2 0 23 s @ num1 0 9 s)
      else if d = CHR ''M'' then map (Pair Minute) (num2 0 59 s @ num1 0 9 s)
      else if d = CHR ''S'' then map (Pair Second) (num2 0 61 s @ num1 0 9 s)
      else [])"

definition set_field :: "field \<Rightarrow> nat \<Rightarrow> timestamp \<Rightarrow> timestamp" where
  "set_field f v t =
     (case f of Year \<Rightarrow> t\<lparr>year := v\<rparr> | Month \<Rightarrow> t\<lparr>month := v\<rparr> | Day \<Rightarrow> t\<lparr>day := v\<rparr>
              | Hour \<Rightarrow> t\<lparr>hour := v\<rparr> | Minute \<Rightarrow> t\<lparr>minute := v\<rparr> | Second \<Rightarrow> t\<lparr>second := v\<rparr>)"

text \<open>The first way of matching the whole text against the format, if there is one.\<close>

fun first_some :: "('a \<Rightarrow> 'b option) \<Rightarrow> 'a list \<Rightarrow> 'b option" where
  "first_some f [] = None"
| "first_some f (x # xs) = (case f x of Some y \<Rightarrow> Some y | None \<Rightarrow> first_some f xs)"

text \<open>All ways of skipping one or more blanks, longest first (\<open>\s+\<close> is greedy).\<close>

fun blanks :: "string \<Rightarrow> string list" where
  "blanks (c # r) = (if c \<in> set whitespace then blanks r @ [r] else [])"
| "blanks [] = []"

function match_format :: "string \<Rightarrow> string \<Rightarrow> timestamp \<Rightarrow> timestamp option" where
  "match_format [] s t = (if s = [] then Some t else None)"
| "match_format (c # fmt) s t =
     (if c = CHR ''%'' then
        (case fmt of
           [] \<Rightarrow> None
         | d # fmt' \<Rightarrow>
             first_some (\<lambda>(f, v, r). match_format fmt' r (set_field f v t)) (directive d s))
      else if c \<in> set whitespace then
        first_some (\<lambda>r. match_format fmt r t) (blanks s)
      else
        (case s of
           [] \<Rightarrow> None
         | c' # r \<Rightarrow> if c' = c then match_format fmt r t else None))"
  by pat_completeness auto
termination
  by (relation "measure (\<lambda>(fmt, s, t). length fmt)") auto

definition leap_year :: "nat \<Rightarrow> bool" where
  "leap_year y = (y mod 4 = 0 \<and> (y mod 100 \<noteq> 0 \<or> y mod 400 = 0))"

definition days_in_month :: "nat \<Rightarrow> nat \<Rightarrow> nat" where
  "days_in_month y m =
     (if m = 2 then (if leap_year y then 29 else 28)
      else if m \<in> {4, 6, 9, 11} then 30 else 31)"

definition stamp_key :: "timestamp \<Rightarrow> nat list" where
  "stamp_key t = [year t, month t, day t, hour t, minute t, second t]"

fun lex_le :: "nat list \<Rightarrow> nat list \<Rightarrow> bool" where
  "lex_le (x # xs) (y # ys) = (x < y \<or> (x = y \<and> lex_le xs ys))"
| "lex_le xs ys = True"

text \<open>The nanosecond range runs from 1677-09-21 00:12:43.145 to 2262-04-11 23:47:16.854.\<close>

definition valid_stamp :: "timestamp \<Rightarrow> bool" where
  "valid_stamp t =
     (1 \<le> month t \<and> month t \<le> 12 \<and> 1 \<le> day t \<and> day t \<le> days_in_month (year t) (month t)
      \<and> hour t \<le> 23 \<and> minute t \<le> 59 \<and> second t \<le> 59
      \<and> lex_le [1677, 9, 21, 0, 12, 44] (stamp_key t)
      \<and> lex_le (stamp_key t) [2262, 4, 11, 23, 47, 16])"

text \<open>Fields that the format does not set default to 1900-01-01 00:00:00.\<close>

definition to_datetime :: "string \<Rightarrow> string \<Rightarrow> timestamp option" where
  "to_datetime fmt s =
     (case match_format fmt s
             \<lparr>year = 1900, month = 1, day = 1, hour = 0, minute = 0, second = 0\<rparr> of
        None \<Rightarrow> None
      | Some t \<Rightarrow> if valid_stamp t then Some t else None)"

section \<open>log_parse.py: the access-log tokenizer\<close>

text \<open>
  The lists that \<open>parse_access_log_file\<close> fills, one entry per line, and its counter
  \<open>errors\<close>. An entry of \<open>request\<close> or \<open>url\<close> is \<open>None\<close> where the code appends None.
\<close>

record access_lists =
  ip :: "string list"
  datetime :: "string list"
  request :: "string option list"
  url :: "string option list"
  status_code :: "string list"
  user_agent :: "string list list"
  errors :: nat

definition requests :: "string list" where
  "requests = [''GET'', ''POST'', ''PUT'', ''DELETE'', ''PATCH'', ''HEAD'', ''OPTIONS'',
               ''CONNECT'', ''TRACE'']"

definition access_init :: access_lists where
  "access_init = \<lparr>ip = [], datetime = [], request = [], url = [], status_code = [],
                   user_agent = [], errors = 0\<rparr>"

text \<open>
  The \<open>if len(parts) > 1\<close> block of the loop body. \<open>log_part[1:-1]\<close> is
  \<open>butlast (tl log_part)\<close>; \<open>parts[1]\<close> and \<open>log_part[0]\<close> are read only where they exist.
\<close>

definition request_url :: "string list \<Rightarrow> access_lists \<Rightarrow> access_lists" where
  "request_url parts st =
     (if length parts > 1 then
        (let log_part = split (parts ! 1) sp in
         if length log_part > 1 then
           (if log_part ! 0 \<in> set requests then
              st\<lparr>request := request st @ [Some (log_part ! 0)],
                 url := url st @ [Some (join sp (butlast (tl log_part)))]\<rparr>
            else
              st\<lparr>request := request st @ [None],
                 errors := errors st + 1,
                 url := url st @ [Some (join sp log_part)]\<rparr>)
         else
           st\<lparr>request := request st @ [None], url := url st @ [None],
              errors := errors st + 2\<rparr>)
      else
        st\<lparr>request := request st @ [None], url := url st @ [None],
           errors := errors st + 2\<rparr>)"

text \<open>\<open>parts[i].split(sep)[j]\<close>, either index raising IndexError when out of range.\<close>

definition token :: "string list \<Rightarrow> nat \<Rightarrow> string \<Rightarrow> nat \<Rightarrow> exn + string" where
  "token parts i sep j = bind (getitem parts i) (\<lambda>p. getitem (split p sep) j)"

text \<open>One iteration of \<open>for line in f\<close>.\<close>

definition access_line :: "string \<Rightarrow> access_lists \<Rightarrow> exn + access_lists" where
  "access_line line st =
     (let parts = split line dq;
          st1 = request_url parts st;
          st2 = st1\<lparr>user_agent := user_agent st1 @ [drop 5 parts]\<rparr>
      in bind (token parts 0 sp 0) (\<lambda>a.
         let st3 = st2\<lparr>ip := ip st2 @ [a]\<rparr>
         in bind (token parts 0 sp 3) (\<lambda>b.
            let st4 = st3\<lparr>datetime := datetime st3 @ [b]\<rparr>
            in bind (token parts 2 sp 1) (\<lambda>c.
               Inr (st4\<lparr>status_code := status_code st4 @ [c]\<rparr>)))))"

fun access_loop :: "string list \<Rightarrow> access_lists \<Rightarrow> exn + access_lists" where
  "access_loop [] st = Inr st"
| "access_loop (line # f) st = bind (access_line line st) (access_loop f)"

text \<open>
  A row of the access DataFrame; the fields are its columns \<open>ip\<close>, \<open>datetime\<close>,
  \<open>request\<close>, \<open>url\<close>, \<open>status_code\<close>, \<open>user_agent\<close>. The \<open>datetime\<close> column holds
  strings until \<open>pd.to_datetime\<close> replaces it.
\<close>

record 'dt access_record =
  col_ip :: string
  col_datetime :: 'dt
  col_request :: "string option"
  col_url :: "string option"
  col_status_code :: string
  col_user_agent :: "string list"

text \<open>\<open>pd.DataFrame({...})\<close>: row \<open>i\<close> takes entry \<open>i\<close> of every list; lists of different
  lengths raise ValueError.\<close>

definition DataFrame_access :: "access_lists \<Rightarrow> exn + string access_record list" where
  "DataFrame_access st =
     (let n = length (ip st) in
      if length (datetime st) = n \<and> length (request st) = n \<and> length (url st) = n
         \<and> length (status_code st) = n \<and> length (user_agent st) = n
      then Inr (map (\<lambda>i. \<lparr>col_ip = ip st ! i, col_datetime = datetime st ! i,
                           col_request = request st ! i, col_url = url st ! i,
                           col_status_code = status_code st ! i,
                           col_user_agent = user_agent st ! i\<rparr>) [0..<n])
      else Inl ValueError)"

definition access_format :: string where
  "access_format = ''[%d/%b/%Y:%H:%M:%S''"

definition datetime_access ::
  "string access_record \<Rightarrow> timestamp option access_record" where
  "datetime_access r =
     \<lparr>col_ip = col_ip r, col_datetime = to_datetime access_format (col_datetime r),
      col_request = col_request r, col_url = col_url r,
      col_status_code = col_status_code r, col_user_agent = col_user_agent r\<rparr>"

type_synonym access_frame = "timestamp option access_record list"

text \<open>
  The local files as the parser sees them: \<open>read_lines w path\<close> is what \<open>open(path, 'r')\<close>
  followed by the iteration over the file gives, the lines with their terminators, or the
  exception that \<open>open\<close> raises; \<open>glob w pattern\<close> is the list of paths that \<open>glob\<close>
  returns, in its order. \<open>csv w\<close> holds the exported tables, and \<open>unwritable w path\<close> is
  the exception that writing to \<open>path\<close> raises, if any. Exports are kept apart from the
  log files: the model takes an output path not to be one of the inputs.
\<close>

record 'tbl world =
  read_lines :: "string \<Rightarrow> exn + string list"
  glob :: "string \<Rightarrow> string list"
  csv :: "string \<Rightarrow> 'tbl option"
  unwritable :: "string \<Rightarrow> exn option"

text \<open>
  \<open>parse_access_log_file\<close> returns the DataFrame; the second component is the value of
  \<open>errors\<close> that it logs.
\<close>

definition parse_access_log_file :: "'tbl world \<Rightarrow> string \<Rightarrow> exn + access_frame \<times> nat" where
  "parse_access_log_file w log_file_path =
     bind (read_lines w log_file_path) (\<lambda>f.
     bind (access_loop f access_init) (\<lambda>st.
     bind (DataFrame_access st) (\<lambda>df_logs.
     Inr (map datetime_access df_logs, errors st))))"

section \<open>log_parse.py: the error-log tokenizer\<close>

record error_lists =
  date_time :: "string list"
  error_level :: "string list"
  process_id :: "string list"
  message :: "string list"
  client_ip :: "string list"
  server :: "string list"
  request_e :: "string list"
  host :: "string list"

definition error_init :: error_lists where
  "error_init = \<lparr>date_time = [], error_level = [], process_id = [], message = [],
                  client_ip = [], server = [], request_e = [], host = []\<rparr>"

text \<open>One iteration of the loop of \<open>parse_error_log\<close>; \<open>request_e\<close> is its list \<open>request\<close>.\<close>

definition error_line :: "string \<Rightarrow> error_lists \<Rightarrow> exn + error_lists" where
  "error_line line st =
     (let parts = split line '', '' in
      bind (token parts 0 sp 0) (\<lambda>d0.
      bind (token parts 0 sp 1) (\<lambda>d1.
      let st1 = st\<lparr>date_time := date_time st @ [d0 @ sp @ d1]\<rparr> in
      bind (token parts 0 sp 2) (\<lambda>lv.
      let st2 = st1\<lparr>error_level := error_level st1 @ [strip_chars lv ''[]'']\<rparr> in
      bind (token parts 0 sp 3) (\<lambda>pr.
      bind (getitem (split pr ''#'') 1) (\<lambda>pid.
      let st3 = st2\<lparr>process_id := process_id st2 @ [pid]\<rparr> in
      bind (getitem parts 1) (\<lambda>p1.
      bind (getitem (split1 p1 '':'') 1) (\<lambda>m.
      let message_part = strip m;
          st4 = st3\<lparr>message := message st3 @ [message_part]\<rparr> in
      bind (token parts 2 '': '' 1) (\<lambda>c.
      let st5 = st4\<lparr>client_ip := client_ip st4 @ [c]\<rparr> in
      bind (token parts 3 '': '' 1) (\<lambda>s.
      let st6 = st5\<lparr>server := server st5 @ [s]\<rparr> in
      bind (token parts 4 '': '' 1) (\<lambda>r.
      let st7 = st6\<lparr>request_e := request_e st6 @ [r]\<rparr> in
      bind (token parts 5 '': '' 1) (\<lambda>h.
      Inr (st7\<lparr>host := host st7 @ [h]\<rparr>)))))))))))))"

fun error_loop :: "string list \<Rightarrow> error_lists \<Rightarrow> exn + error_lists" where
  "error_loop [] st = Inr st"
| "error_loop (line # f) st = bind (error_line line st) (error_loop f)"

text \<open>A row of the error DataFrame; \<open>ecol_request\<close> is its column \<open>request\<close>.\<close>

record 'dt error_record =
  ecol_date_time :: 'dt
  ecol_error_level :: string
  ecol_process_id :: string
  ecol_message :: string
  ecol_client_ip :: string
  ecol_server :: string
  ecol_request :: string
  ecol_host :: string

definition DataFrame_error :: "error_lists \<Rightarrow> exn + string error_record list" where
  "DataFrame_error st =
     (let n = length (date_time st) in
      if length (error_level st) = n \<and> length (process_id st) = n \<and> length (message st) = n
         \<and> length (client_ip st) = n \<and> length (server st) = n \<and> length (request_e st) = n
         \<and> length (host st) = n
      then Inr (map (\<lambda>i. \<lparr>ecol_date_time = date_time st ! i,
                           ecol_error_level = error_level st ! i,
                           ecol_process_id = process_id st ! i,
                           ecol_message = message st ! i,
                           ecol_client_ip = client_ip st ! i,
                           ecol_server = server st ! i,
                           ecol_request = request_e st ! i,
                           ecol_host = host st ! i\<rparr>) [0..<n])
      else Inl ValueError)"

definition error_format :: string where
  "error_format = ''%Y/%m/%d %H:%M:%S''"

definition datetime_error :: "string error_record \<Rightarrow> timestamp option error_record" where
  "datetime_error r =
     \<lparr>ecol_date_time = to_datetime error_format (ecol_date_time r),
      ecol_error_level = ecol_error_level r, ecol_process_id = ecol_process_id r,
      ecol_message = ecol_message r, ecol_client_ip = ecol_client_ip r,
      ecol_server = ecol_server r, ecol_request = ecol_request r,
      ecol_host = ecol_host r\<rparr>"

type_synonym error_frame = "timestamp option error_record list"

definition parse_error_log :: "'tbl world \<Rightarrow> string \<Rightarrow> exn + error_frame" where
  "parse_error_log w log_file_path =
     bind (read_lines w log_file_path) (\<lambda>f.
     bind (error_loop f error_init) (\<lambda>st.
     bind (DataFrame_error st) (\<lambda>df_error_logs.
     Inr (map datetime_error df_error_logs))))"

section \<open>log_parse.py: aggregation and export\<close>

datatype table = AccessTable access_frame | ErrorTable error_frame

text \<open>The number of data rows of an exported table (the header row is not one).\<close>

fun data_rows :: "table \<Rightarrow> nat" where
  "data_rows (AccessTable df) = length df"
| "data_rows (ErrorTable df) = length df"

text \<open>\<open>os.path.join(directory, pattern)\<close> for a relative pattern.\<close>

definition path_join :: "string \<Rightarrow> string \<Rightarrow> string" where
  "path_join a b = (if a = [] \<or> last a = CHR ''/'' then a @ b else a @ ''/'' @ b)"

text \<open>The two \<open>for log_file in ...\<close> loops; \<open>pd.concat([all, df], ignore_index=True)\<close>
  puts the rows of \<open>df\<close> after those of \<open>all\<close>.\<close>

fun access_files_loop ::
  "table world \<Rightarrow> string list \<Rightarrow> access_frame \<Rightarrow> exn + access_frame" where
  "access_files_loop w [] all_access_logs_df = Inr all_access_logs_df"
| "access_files_loop w (log_file # rest) all_access_logs_df =
     bind (parse_access_log_file w log_file) (\<lambda>(df_access_log, n).
     access_files_loop w rest (all_access_logs_df @ df_access_log))"

fun error_files_loop ::
  "table world \<Rightarrow> string list \<Rightarrow> error_frame \<Rightarrow> exn + error_frame" where
  "error_files_loop w [] all_error_logs_df = Inr all_error_logs_df"
| "error_files_loop w (log_file # rest) all_error_logs_df =
     bind (parse_error_log w log_file) (\<lambda>df_error_log.
     error_files_loop w rest (all_error_logs_df @ df_error_log))"

text \<open>\<open>df.to_csv(path, index=False)\<close> opens \<open>path\<close> for writing, which replaces its
  content.\<close>

definition to_csv :: "table \<Rightarrow> string \<Rightarrow> table world \<Rightarrow> (exn + unit) \<times> table world" where
  "to_csv df path w =
     (case unwritable w path of
        Some e \<Rightarrow> (Inl e, w)
      | None \<Rightarrow> (Inr (), w\<lparr>csv := (csv w)(path \<mapsto> df)\<rparr>))"

text \<open>The result is the exception that leaves \<open>parse_all_files\<close>, if any, together with
  the files as they are at that moment.\<close>

definition parse_all_files ::
  "string \<Rightarrow> string \<Rightarrow> string \<Rightarrow> string \<Rightarrow> table world \<Rightarrow> (exn + unit) \<times> table world" where
  "parse_all_files access_logs_directory error_logs_directory
                   output_csv_access_path output_csv_error_path w =
     (let access_log_files = glob w (path_join access_logs_directory ''*.log.*'') in
      case access_files_loop w access_log_files [] of
        Inl e \<Rightarrow> (Inl e, w)
      | Inr all_access_logs_df \<Rightarrow>
          (case to_csv (AccessTable all_access_logs_df) output_csv_access_path w of
             (Inl e, w1) \<Rightarrow> (Inl e, w1)
           | (Inr u, w1) \<Rightarrow>
               (let error_log_files = glob w1 (path_join error_logs_directory ''*.log'') in
                case error_files_loop w1 error_log_files [] of
                  Inl e \<Rightarrow> (Inl e, w1)
                | Inr all_error_logs_df \<Rightarrow>
                    to_csv (ErrorTable all_error_logs_df) output_csv_error_path w1)))"

section \<open>log_download.py\<close>

text \<open>
  What \<open>log_download\<close> writes to the logger, one constructor per call site, with the
  values its message interpolates.
\<close>

datatype log_entry =
    Found nat
  | RemotePathNotFound string
  | TryingToDownload string
  | DownloadedTo string string
  | Decompressing string
  | RemoteFileNotFound string
  | ErrorWhileDownloading string exn
  | DownloadedCount nat
  | OnlySomeDownloaded nat nat
  | AllDownloaded nat
  | Decompressed string string
  | DecompressNotFound string
  | BadGzip string
  | ErrorWhileDecompressing string exn

text \<open>
  The collaborators and the state that the download touches. \<open>connect\<close> is the exception
  that opening the SSH connection and the SFTP session raises, if any;
  \<open>listdir\<close> is \<open>sftp.listdir\<close>; \<open>sftp_get remote local fs\<close> is \<open>sftp.get\<close>, which
  changes the local files \<open>fs\<close> and may raise; \<open>gunzip bytes\<close> is the decompressed output
  that reaches the target file and the exception that reading the archive raises, if any.
  \<open>local_fs\<close> maps a local path to its bytes, \<open>logged\<close> is the logger's output, and
  \<open>sftp_open\<close>, \<open>client_open\<close> tell whether the session and the connection are open.
\<close>

record remote =
  connect :: "exn option"
  listdir :: "string \<Rightarrow> exn + string list"
  sftp_get :: "string \<Rightarrow> string \<Rightarrow> (string \<Rightarrow> string option)
               \<Rightarrow> (exn + unit) \<times> (string \<Rightarrow> string option)"
  gunzip :: "string \<Rightarrow> string \<times> exn option"

record local_state =
  local_fs :: "string \<Rightarrow> string option"
  logged :: "log_entry list"
  sftp_open :: bool
  client_open :: bool

definition logger :: "log_entry \<Rightarrow> local_state \<Rightarrow> local_state" where
  "logger m s = s\<lparr>logged := logged s @ [m]\<rparr>"

text \<open>\<open>s.replace(old, new)\<close> for a non-empty \<open>old\<close>.\<close>

fun replace :: "string \<Rightarrow> string \<Rightarrow> string \<Rightarrow> string" where
  "replace [] old new = []"
| "replace (c # cs) old new =
     (if prefix old (c # cs)
      then new @ replace (drop (length old - 1) cs) old new
      else c # replace cs old new)"

text \<open>\<open>decompress_files\<close>: every exception is caught and logged, so it always returns.\<close>

definition decompress_files :: "remote \<Rightarrow> string \<Rightarrow> local_state \<Rightarrow> local_state" where
  "decompress_files r local_log_file_path s =
     (let decompressed_file_path = replace local_log_file_path ''.gz'' [] in
      case local_fs s local_log_file_path of
        None \<Rightarrow> logger (DecompressNotFound local_log_file_path) s
      | Some bytes \<Rightarrow>
          (let (out, err) = gunzip r bytes;
               s1 = s\<lparr>local_fs := (local_fs s)(decompressed_file_path \<mapsto> out)\<rparr>
           in case err of
                Some e \<Rightarrow>
                  if e = FileNotFoundError then logger (DecompressNotFound local_log_file_path) s1
                  else if e = BadGzipFile then logger (BadGzip local_log_file_path) s1
                  else logger (ErrorWhileDecompressing local_log_file_path e) s1
              | None \<Rightarrow>
                  (let s2 = logger (Decompressed local_log_file_path decompressed_file_path) s1
                   in s2\<lparr>local_fs := (local_fs s2)(local_log_file_path := None)\<rparr>)))"

text \<open>
  The local variables of \<open>log_download\<close> that its \<open>finally\<close> block reads; \<open>None\<close> is a
  variable that has not been assigned yet.
\<close>

record locals =
  files_var :: "string list option"
  files_downloaded :: "nat option"

text \<open>\<open>sftp.get\<close> followed by the success message, for one target path.\<close>

definition get_and_log ::
  "remote \<Rightarrow> string \<Rightarrow> string \<Rightarrow> local_state \<Rightarrow> (exn + unit) \<times> local_state" where
  "get_and_log r remote_file local_file s =
     (case sftp_get r remote_file local_file (local_fs s) of
        (Inl e, fs) \<Rightarrow> (Inl e, s\<lparr>local_fs := fs\<rparr>)
      | (Inr u, fs) \<Rightarrow> (Inr (), logger (DownloadedTo remote_file local_file) (s\<lparr>local_fs := fs\<rparr>)))"

text \<open>
  The body of the inner \<open>try\<close> for one file: the result is the exception that leaves it,
  if any, the counter and the state.
\<close>

definition download_try ::
  "remote \<Rightarrow> string \<Rightarrow> string \<Rightarrow> string \<Rightarrow> string \<Rightarrow> nat \<Rightarrow> local_state
   \<Rightarrow> (exn + unit) \<times> nat \<times> local_state" where
  "download_try r file remote_file local_access_file local_error_file n s =
     (let s0 = logger (TryingToDownload remote_file) s;
          (res, s1) =
            (if prefix ''access'' file then get_and_log r remote_file local_access_file s0
             else if prefix ''error'' file then get_and_log r remote_file local_error_file s0
             else (Inr (), s0))
      in case res of
           Inl e \<Rightarrow> (Inl e, n, s1)
         | Inr u \<Rightarrow>
             (Inr (), n + 1,
              if suffix ''.gz'' file then
                (if prefix ''access'' file then
                   decompress_files r local_access_file (logger (Decompressing local_access_file) s1)
                 else if prefix ''error'' file then
                   decompress_files r local_error_file (logger (Decompressing local_error_file) s1)
                 else s1)
              else s1))"

text \<open>The \<open>for file in files\<close> loop; both \<open>except\<close> clauses log and go on.\<close>

fun download_loop ::
  "remote \<Rightarrow> string \<Rightarrow> string \<Rightarrow> string \<Rightarrow> string list \<Rightarrow> nat \<Rightarrow> local_state
   \<Rightarrow> nat \<times> local_state" where
  "download_loop r remote_log_path local_access_log_path local_error_log_path [] n s = (n, s)"
| "download_loop r remote_log_path local_access_log_path local_error_log_path (file # rest) n s =
     (let remote_file = remote_log_path @ ''/'' @ file;
          local_access_file = path_join local_access_log_path file;
          local_error_file = path_join local_error_log_path file
      in case download_try r file remote_file local_access_file local_error_file n s of
           (Inl e, n1, s1) \<Rightarrow>
             download_loop r remote_log_path local_access_log_path local_error_log_path rest n1
               (if e = FileNotFoundError then logger (RemoteFileNotFound remote_file) s1
                else logger (ErrorWhileDownloading remote_file e) s1)
         | (Inr u, n1, s1) \<Rightarrow>
             download_loop r remote_log_path local_access_log_path local_error_log_path rest n1 s1)"

text \<open>How control leaves the outer \<open>try\<close> block.\<close>

datatype outcome = Completed | Returned | Raised exn

definition download_body ::
  "remote \<Rightarrow> string \<Rightarrow> string \<Rightarrow> string \<Rightarrow> local_state \<Rightarrow> outcome \<times> locals \<times> local_state" where
  "download_body r remote_log_path local_access_log_path local_error_log_path s =
     (case listdir r remote_log_path of
        Inl e \<Rightarrow>
          if e = FileNotFoundError
          then (Returned, \<lparr>files_var = None, files_downloaded = None\<rparr>,
                logger (RemotePathNotFound remote_log_path) s)
          else (Raised e, \<lparr>files_var = None, files_downloaded = None\<rparr>, s)
      | Inr files \<Rightarrow>
          (let s1 = logger (Found (length files)) s;
               (n, s2) = download_loop r remote_log_path local_access_log_path
                           local_error_log_path files 0 s1
           in (Completed, \<lparr>files_var = Some files, files_downloaded = Some n\<rparr>, s2)))"

text \<open>
  The \<open>finally\<close> block. Its first statement formats \<open>files_downloaded\<close>; reading a local
  variable that has no value raises UnboundLocalError, and the rest of the block,
  the two \<open>close\<close> calls included, is then skipped.
\<close>

definition download_finally :: "locals \<Rightarrow> local_state \<Rightarrow> (exn + unit) \<times> local_state" where
  "download_finally l s =
     (case files_downloaded l of
        None \<Rightarrow> (Inl UnboundLocalError, s)
      | Some n \<Rightarrow>
          (let s1 = logger (DownloadedCount n) s in
           case files_var l of
             None \<Rightarrow> (Inl UnboundLocalError, s1)
           | Some files \<Rightarrow>
               (let s2 = (if n < length files then logger (OnlySomeDownloaded n (length files)) s1
                          else if n = length files then logger (AllDownloaded n) s1
                          else s1)
                in (Inr (), s2\<lparr>sftp_open := False, client_open := False\<rparr>))))"

text \<open>
  \<open>log_download\<close>: an exception raised by the \<open>finally\<close> block replaces the pending
  return or exception of the \<open>try\<close> block; otherwise that one takes effect.
\<close>

definition log_download ::
  "remote \<Rightarrow> string \<Rightarrow> string \<Rightarrow> string \<Rightarrow> local_state \<Rightarrow> (exn + unit) \<times> local_state" where
  "log_download r remote_log_path local_access_log_path local_error_log_path s =
     (case connect r of
        Some e \<Rightarrow> (Inl e, s)
      | None \<Rightarrow>
          (let s0 = s\<lparr>sftp_open := True, client_open := True\<rparr>;
               (out, l, s1) = download_body r remote_log_path local_access_log_path
                                local_error_log_path s0
           in case download_finally l s1 of
                (Inl e, s2) \<Rightarrow> (Inl e, s2)
              | (Inr u, s2) \<Rightarrow>
                  (case out of Raised e \<Rightarrow> (Inl e, s2) | Returned \<Rightarrow> (Inr (), s2)
                             | Completed \<Rightarrow> (Inr (), s2))))"

section \<open>The tokenizers, line by line\<close>

text \<open>
  The loops fill their lists in step, so a file that is read to its end gives one row per
  line. The definitions below say what one line contributes; the lemmas after them
  show that the loops compute exactly that.
\<close>

text \<open>\<open>traverse f xs\<close> applies \<open>f\<close> to every element in order and stops at the first
  exception.\<close>

fun traverse :: "('a \<Rightarrow> exn + 'b) \<Rightarrow> 'a list \<Rightarrow> exn + 'b list" where
  "traverse f [] = Inr []"
| "traverse f (x # xs) = bind (f x) (\<lambda>y. bind (traverse f xs) (\<lambda>ys. Inr (y # ys)))"

text \<open>The row of one access-log line, with the number of malformed units it counts.\<close>

definition access_fields :: "string \<Rightarrow> exn + string access_record \<times> nat" where
  "access_fields line =
     (let parts = split line dq;
          st = request_url parts access_init
      in bind (token parts 0 sp 0) (\<lambda>a.
         bind (token parts 0 sp 3) (\<lambda>b.
         bind (token parts 2 sp 1) (\<lambda>c.
         Inr (\<lparr>col_ip = a, col_datetime = b, col_request = last (request st),
               col_url = last (url st), col_status_code = c,
               col_user_agent = drop 5 parts\<rparr>, errors st)))))"

definition access_push :: "string access_record \<times> nat \<Rightarrow> access_lists \<Rightarrow> access_lists" where
  "access_push ru st =
     \<lparr>ip = ip st @ [col_ip (fst ru)], datetime = datetime st @ [col_datetime (fst ru)],
      request = request st @ [col_request (fst ru)], url = url st @ [col_url (fst ru)],
      status_code = status_code st @ [col_status_code (fst ru)],
      user_agent = user_agent st @ [col_user_agent (fst ru)],
      errors = errors st + snd ru\<rparr>"

definition access_columns :: "access_lists \<Rightarrow> (string access_record \<times> nat) list \<Rightarrow> access_lists" where
  "access_columns st rus =
     \<lparr>ip = ip st @ map (col_ip \<circ> fst) rus, datetime = datetime st @ map (col_datetime \<circ> fst) rus,
      request = request st @ map (col_request \<circ> fst) rus, url = url st @ map (col_url \<circ> fst) rus,
      status_code = status_code st @ map (col_status_code \<circ> fst) rus,
      user_agent = user_agent st @ map (col_user_agent \<circ> fst) rus,
      errors = errors st + sum_list (map snd rus)\<rparr>"

text \<open>The row of one error-log line.\<close>

definition error_fields :: "string \<Rightarrow> exn + string error_record" where
  "error_fields line =
     (let parts = split line '', '' in
      bind (token parts 0 sp 0) (\<lambda>d0.
      bind (token parts 0 sp 1) (\<lambda>d1.
      bind (token parts 0 sp 2) (\<lambda>lv.
      bind (token parts 0 sp 3) (\<lambda>pr.
      bind (getitem (split pr ''#'') 1) (\<lambda>pid.
      bind (getitem parts 1) (\<lambda>p1.
      bind (getitem (split1 p1 '':'') 1) (\<lambda>m.
      bind (token parts 2 '': '' 1) (\<lambda>c.
      bind (token parts 3 '': '' 1) (\<lambda>s.
      bind (token parts 4 '': '' 1) (\<lambda>r.
      bind (token parts 5 '': '' 1) (\<lambda>h.
      Inr \<lparr>ecol_date_time = d0 @ sp @ d1, ecol_error_level = strip_chars lv ''[]'',
           ecol_process_id = pid, ecol_message = strip m, ecol_client_ip = c,
           ecol_server = s, ecol_request = r, ecol_host = h\<rparr>))))))))))))"

definition error_push :: "string error_record \<Rightarrow> error_lists \<Rightarrow> error_lists" where
  "error_push r st =
     \<lparr>date_time = date_time st @ [ecol_date_time r],
      error_level = error_level st @ [ecol_error_level r],
      process_id = process_id st @ [ecol_process_id r],
      message = message st @ [ecol_message r],
      client_ip = client_ip st @ [ecol_client_ip r],
      server = server st @ [ecol_server r],
      request_e = request_e st @ [ecol_request r],
      host = host st @ [ecol_host r]\<rparr>"

definition error_columns :: "error_lists \<Rightarrow> string error_record list \<Rightarrow> error_lists" where
  "error_columns st rs =
     \<lparr>date_time = date_time st @ map ecol_date_time rs,
      error_level = error_level st @ map ecol_error_level rs,
      process_id = process_id st @ map ecol_process_id rs,
      message = message st @ map ecol_message rs,
      client_ip = client_ip st @ map ecol_client_ip rs,
      server = server st @ map ecol_server rs,
      request_e = request_e st @ map ecol_request rs,
      host = host st @ map ecol_host rs\<rparr>"

text \<open>
  The error-log grammar in the words of the specification: a line fits when every
  position that the fixed splits read exists, and its record is read off those positions.
\<close>

definition positional :: "string \<Rightarrow> bool" where
  "positional line =
     (let parts = split line '', ''; p0 = split (parts ! 0) sp in
      6 \<le> length parts \<and> 4 \<le> length p0 \<and> 2 \<le> length (split (p0 ! 3) ''#'')
      \<and> 2 \<le> length (split1 (parts ! 1) '':'')
      \<and> 2 \<le> length (split (parts ! 2) '': '') \<and> 2 \<le> length (split (parts ! 3) '': '')
      \<and> 2 \<le> length (split (parts ! 4) '': '') \<and> 2 \<le> length (split (parts ! 5) '': ''))"

definition positional_record :: "string \<Rightarrow> string error_record" where
  "positional_record line =
     (let parts = split line '', ''; p0 = split (parts ! 0) sp in
      \<lparr>ecol_date_time = p0 ! 0 @ sp @ p0 ! 1,
       ecol_error_level = strip_chars (p0 ! 2) ''[]'',
       ecol_process_id = split (p0 ! 3) ''#'' ! 1,
       ecol_message = strip (split1 (parts ! 1) '':'' ! 1),
       ecol_client_ip = split (parts ! 2) '': '' ! 1,
       ecol_server = split (parts ! 3) '': '' ! 1,
       ecol_request = split (parts ! 4) '': '' ! 1,
       ecol_host = split (parts ! 5) '': '' ! 1\<rparr>)"

section \<open>Concrete inputs\<close>

text \<open>A remote host on which the log directory does not exist, and a fresh local state.\<close>

definition remote_missing :: remote where
  "remote_missing = \<lparr>connect = None, listdir = (\<lambda>p. Inl FileNotFoundError),
     sftp_get = (\<lambda>a b fs. (Inr (), fs)), gunzip = (\<lambda>b. (b, None))\<rparr>"

definition local_start :: local_state where
  "local_start = \<lparr>local_fs = Map.empty, logged = [], sftp_open = False, client_open = False\<rparr>"

text \<open>The access-log line of the specification's example, as it stands in a file.\<close>

definition newline :: string where
  "newline = [CHR 0x0A]"

definition sample_line :: string where
  "sample_line = ''x - - [29/Sep/2024:00:24:27 +0200] '' @ dq @ ''GET /path HTTP/1.1'' @ dq
     @ '' 404 162 '' @ dq @ ''-'' @ dq @ '' '' @ dq @ ''Go-http-client/1.1'' @ dq @ newline"

text \<open>A line whose request does not start with a method, and one whose date is no date.\<close>

definition odd_request_line :: string where
  "odd_request_line = ''10.0.0.7 - - [29/Sep/2024:00:24:28 +0200] '' @ dq @ ''PROPFIND /a b HTTP/1.1'' @ dq
     @ '' 400 150 '' @ dq @ ''-'' @ dq @ '' '' @ dq @ ''-'' @ dq @ newline"

definition bad_date_line :: string where
  "bad_date_line = ''10.0.0.8 - - [yesterday +0200] '' @ dq @ ''GET / HTTP/1.1'' @ dq
     @ '' 200 5 '' @ dq @ ''-'' @ dq @ '' '' @ dq @ ''curl'' @ dq @ newline"

text \<open>A line with a one-token request, a line without any quote, and a blank line.\<close>

definition one_token_line :: string where
  "one_token_line = ''10.0.0.9 - - [29/Sep/2024:00:24:29 +0200] '' @ dq @ ''-'' @ dq
     @ '' 400 0 '' @ dq @ ''-'' @ dq @ '' '' @ dq @ ''-'' @ dq @ newline"

definition no_quote_line :: string where
  "no_quote_line = ''10.0.0.9 - - [29/Sep/2024:00:24:30 +0200] request missing'' @ newline"

definition access_dir :: "string \<Rightarrow> exn + string list" where
  "access_dir path =
     (if path = ''logs/access/access.log.1'' then Inr [sample_line, odd_request_line, bad_date_line]
      else if path = ''logs/access/access.log.2'' then Inr [one_token_line]
      else if path = ''logs/access/access.log.3'' then Inr [sample_line, newline, sample_line]
      else if path = ''logs/access/access.log.4'' then Inr [no_quote_line]
      else Inl FileNotFoundError)"

definition access_world :: "table world" where
  "access_world = \<lparr>read_lines = access_dir, glob = (\<lambda>pattern. []), csv = Map.empty,
                    unwritable = (\<lambda>path. None)\<rparr>"

text \<open>What the example line reads after the client address, up to its closing quote.\<close>

definition sample_tail :: string where
  "sample_tail = '' - - [29/Sep/2024:00:24:27 +0200] '' @ dq @ ''GET /path HTTP/1.1'' @ dq
     @ '' 404 162 '' @ dq @ ''-'' @ dq @ '' '' @ dq @ ''Go-http-client/1.1'' @ dq"

definition sample_stamp :: timestamp where
  "sample_stamp = \<lparr>year = 2024, month = 9, day = 29, hour = 0, minute = 24, second = 27\<rparr>"

text \<open>The frame that the first example file parses to.\<close>

definition access_frame_1 :: access_frame where
  "access_frame_1 =
     [\<lparr>col_ip = ''x'', col_datetime = Some sample_stamp, col_request = Some ''GET'',
       col_url = Some ''/path'', col_status_code = ''404'',
       col_user_agent = [''Go-http-client/1.1'', newline]\<rparr>,
      \<lparr>col_ip = ''10.0.0.7'', col_datetime = Some (sample_stamp\<lparr>second := 28\<rparr>),
       col_request = None, col_url = Some ''PROPFIND /a b HTTP/1.1'', col_status_code = ''400'',
       col_user_agent = [''-'', newline]\<rparr>,
      \<lparr>col_ip = ''10.0.0.8'', col_datetime = None, col_request = Some ''GET'',
       col_url = Some ''/'', col_status_code = ''200'',
       col_user_agent = [''curl'', newline]\<rparr>]"

text \<open>
  Error-log lines: one in the grammar that \<open>parse_error_log\<close> reads, one in that grammar
  with a date that is no date, and one as nginx writes them, which has five fields.
\<close>

definition error_ok_line :: string where
  "error_ok_line = ''2024/09/29 10:15:03 [error] 1234#5678, upstream: timed out, client: 1.2.3.4, server: example.com, request: GET / HTTP/1.1, host: example.com''"

definition error_bad_date_line :: string where
  "error_bad_date_line = ''yesterday noon [warn] 1#2, note: x, client: a, server: b, request: c, host: d''"

definition error_short_line :: string where
  "error_short_line = ''2024/09/29 10:15:03 [error] 1234#5678: *1 open() failed (2: No such file or directory), client: 1.2.3.4, server: example.com, request: GET / HTTP/1.1, host: example.com''"

definition log_dir :: "string \<Rightarrow> exn + string list" where
  "log_dir path =
     (if path = ''logs/access/access.log.1'' then Inr [sample_line, odd_request_line, bad_date_line]
      else if path = ''logs/access/access.log.2'' then Inr [one_token_line]
      else if path = ''logs/error/error.log'' then Inr [error_ok_line, error_bad_date_line]
      else if path = ''logs/error/old.log'' then Inr [error_ok_line]
      else if path = ''logs/error/nginx.log'' then Inr [error_short_line]
      else Inl FileNotFoundError)"

definition log_world :: "table world" where
  "log_world =
     \<lparr>read_lines = log_dir,
      glob = (\<lambda>pattern.
        if pattern = ''logs/access/*.log.*''
        then [''logs/access/access.log.1'', ''logs/access/access.log.2'']
        else if pattern = ''logs/error/*.log''
        then [''logs/error/error.log'', ''logs/error/old.log'']
        else []),
      csv = Map.empty, unwritable = (\<lambda>path. None)\<rparr>"



definition error_frame_1 :: error_frame where
  "error_frame_1 =
     [\<lparr>ecol_date_time = Some \<lparr>year = 2024, month = 9, day = 29, hour = 10, minute = 15,
                                second = 3\<rparr>,
       ecol_error_level = ''error'', ecol_process_id = ''5678'', ecol_message = ''timed out'',
       ecol_client_ip = ''1.2.3.4'', ecol_server = ''example.com'',
       ecol_request = ''GET / HTTP/1.1'', ecol_host = ''example.com''\<rparr>,
      \<lparr>ecol_date_time = None, ecol_error_level = ''warn'', ecol_process_id = ''2'',
       ecol_message = ''x'', ecol_client_ip = ''a'', ecol_server = ''b'', ecol_request = ''c'',
       ecol_host = ''d''\<rparr>]"

text \<open>The frames of the second access file and of the second error file.\<close>

definition access_frame_2 :: access_frame where
  "access_frame_2 =
     [\<lparr>col_ip = ''10.0.0.9'', col_datetime = Some (sample_stamp\<lparr>second := 29\<rparr>),
       col_request = None, col_url = None, col_status_code = ''400'',
       col_user_agent = [''-'', newline]\<rparr>]"

definition error_frame_2 :: error_frame where
  "error_frame_2 = [error_frame_1 ! 0]"

text \<open>
  The same files when the listing of the access directory, resp. of the error directory,
  holds a path that cannot be opened, and when an earlier run has left exports of seven and
  of five rows behind.
\<close>

definition missing_access_world :: "table world" where
  "missing_access_world =
     log_world\<lparr>glob := (\<lambda>pattern.
       if pattern = ''logs/access/*.log.*''
       then [''logs/access/access.log.2'', ''logs/access/access.log.0'', ''logs/access/access.log.1'']
       else glob log_world pattern)\<rparr>"

definition missing_error_world :: "table world" where
  "missing_error_world =
     log_world\<lparr>glob := (\<lambda>pattern.
       if pattern = ''logs/error/*.log''
       then [''logs/error/error.log'', ''logs/error/gone.log'', ''logs/error/old.log'']
       else glob log_world pattern)\<rparr>"

definition rerun_world :: "table world" where
  "rerun_world =
     log_world\<lparr>csv := [''out/access.csv'' \<mapsto> AccessTable (access_frame_1 @ access_frame_1 @ access_frame_2),
                        ''out/error.csv'' \<mapsto> ErrorTable (error_frame_1 @ error_frame_1 @ error_frame_2)]\<rparr>"

text \<open>Lines that end with their request, and a file that holds them.\<close>

definition request_only_line :: string where
  "request_only_line = ''10.0.0.7 - - [29/Sep/2024:00:24:28 +0200] '' @ dq @ ''GET /a HTTP/1.1'' @ dq
     @ newline"

definition odd_request_only_line :: string where
  "odd_request_only_line = ''10.0.0.7 - - [29/Sep/2024:00:24:28 +0200] '' @ dq
     @ ''PROPFIND /a HTTP/1.1'' @ dq @ newline"

definition truncated_world :: "table world" where
  "truncated_world =
     \<lparr>read_lines = (\<lambda>path.
        if path = ''logs/access/access.log.5''
        then Inr [sample_line, request_only_line, odd_request_only_line]
        else Inl FileNotFoundError),
      glob = (\<lambda>pattern. []), csv = Map.empty, unwritable = (\<lambda>path. None)\<rparr>"

section \<open>Lemmas about the tokenizers\<close>

lemma bind_Inr [simp]: "bind (Inr v) f = f v" by (simp add: bind_def)
lemma bind_Inl [simp]: "bind (Inl e) f = Inl e" by (simp add: bind_def)

lemma bind_eq_Inr: "bind m f = Inr y \<longleftrightarrow> (\<exists>v. m = Inr v \<and> f v = Inr y)"
  by (cases m) simp_all

lemma request_url_shape:
  "\<exists>q u k. request_url parts st = st\<lparr>request := request st @ [q], url := url st @ [u], errors := errors st + k\<rparr>
      \<and> request_url parts access_init = access_init\<lparr>request := [q], url := [u], errors := k\<rparr>"
  by (simp add: request_url_def Let_def access_init_def)

lemma access_line_fields:
  "access_line line st = bind (access_fields line) (\<lambda>ru. Inr (access_push ru st))"
proof -
  obtain q u k where
    a: "request_url (split line dq) st = st\<lparr>request := request st @ [q], url := url st @ [u], errors := errors st + k\<rparr>"
    and b: "request_url (split line dq) access_init = access_init\<lparr>request := [q], url := [u], errors := k\<rparr>"
    using request_url_shape by blast
  show ?thesis
    unfolding access_line_def access_fields_def Let_def a b
    by (cases "token (split line dq) 0 sp 0"; cases "token (split line dq) 0 sp 3";
        cases "token (split line dq) 2 sp 1") (simp_all add: access_push_def access_init_def)
qed

lemma access_columns_Nil: "access_columns st [] = st"
  by (simp add: access_columns_def)

lemma access_columns_Cons: "access_columns st (ru # rus) = access_columns (access_push ru st) rus"
  by (simp add: access_columns_def access_push_def)

lemma access_loop_traverse:
  "access_loop f st = bind (traverse access_fields f) (\<lambda>rus. Inr (access_columns st rus))"
proof (induction f arbitrary: st)
  case Nil
  show ?case by (simp add: access_columns_Nil)
next
  case (Cons line f)
  show ?case
  proof (cases "access_fields line")
    case (Inl e)
    then show ?thesis by (simp add: access_line_fields)
  next
    case (Inr ru)
    then show ?thesis
      by (cases "traverse access_fields f") (simp_all add: access_line_fields Cons.IH access_columns_Cons)
  qed
qed

lemma DataFrame_access_columns:
  "DataFrame_access (access_columns access_init rus) = Inr (map fst rus)"
  by (auto simp: DataFrame_access_def access_columns_def access_init_def Let_def intro!: nth_equalityI)

lemma parse_access_rows:
  "parse_access_log_file w path =
     bind (read_lines w path) (\<lambda>f. bind (traverse access_fields f) (\<lambda>rus.
       Inr (map (datetime_access \<circ> fst) rus, sum_list (map snd rus))))"
proof (cases "read_lines w path")
  case (Inl e)
  then show ?thesis by (simp add: parse_access_log_file_def)
next
  case (Inr f)
  then show ?thesis
    by (cases "traverse access_fields f")
       (simp_all add: parse_access_log_file_def access_loop_traverse DataFrame_access_columns,
        simp add: access_columns_def access_init_def)
qed

lemma traverse_Inr:
  "traverse f xs = Inr ys \<Longrightarrow> length ys = length xs \<and> (\<forall>i<length xs. f (xs ! i) = Inr (ys ! i))"
proof (induction xs arbitrary: ys)
  case Nil
  then show ?case by simp
next
  case (Cons x xs)
  from Cons.prems obtain y ys' where y: "f x = Inr y" and t: "traverse f xs = Inr ys'" and e: "ys = y # ys'"
    by (auto simp: bind_eq_Inr)
  from Cons.IH[OF t] y e show ?case by (auto simp: nth_Cons split: nat.splits)
qed

lemma traverse_Inl:
  "traverse f xs = Inl e \<Longrightarrow> \<exists>i<length xs. f (xs ! i) = Inl e \<and> (\<forall>j<i. \<exists>y. f (xs ! j) = Inr y)"
proof (induction xs)
  case Nil
  then show ?case by simp
next
  case (Cons x xs)
  show ?case
  proof (cases "f x")
    case (Inl e')
    with Cons.prems have "e' = e" by simp
    with Inl show ?thesis by (intro exI[of _ 0]) simp
  next
    case (Inr y)
    with Cons.prems have "traverse f xs = Inl e" by (cases "traverse f xs") simp_all
    from Cons.IH[OF this] obtain i where i: "i < length xs" "f (xs ! i) = Inl e" "\<forall>j<i. \<exists>y. f (xs ! j) = Inr y" by blast
    show ?thesis
    proof (intro exI[of _ "Suc i"] conjI allI impI)
      fix j assume "j < Suc i"
      then show "\<exists>y. f ((x # xs) ! j) = Inr y" using i(3) Inr by (cases j) auto
    qed (use i in auto)
  qed
qed
lemma error_line_fields:
  "error_line line st = bind (error_fields line) (\<lambda>r. Inr (error_push r st))"
  by (simp add: error_line_def error_fields_def Let_def bind_def error_push_def split: sum.splits)

lemma error_columns_Nil: "error_columns st [] = st"
  by (simp add: error_columns_def)

lemma error_columns_Cons: "error_columns st (r # rs) = error_columns (error_push r st) rs"
  by (simp add: error_columns_def error_push_def)

lemma error_loop_traverse:
  "error_loop f st = bind (traverse error_fields f) (\<lambda>rs. Inr (error_columns st rs))"
proof (induction f arbitrary: st)
  case Nil
  show ?case by (simp add: error_columns_Nil)
next
  case (Cons line f)
  show ?case
  proof (cases "error_fields line")
    case (Inl e)
    then show ?thesis by (simp add: error_line_fields)
  next
    case (Inr r)
    then show ?thesis
      by (cases "traverse error_fields f") (simp_all add: error_line_fields Cons.IH error_columns_Cons)
  qed
qed

lemma DataFrame_error_columns:
  "DataFrame_error (error_columns error_init rs) = Inr rs"
  by (auto simp: DataFrame_error_def error_columns_def error_init_def Let_def intro!: nth_equalityI)

lemma parse_error_rows:
  "parse_error_log w path =
     bind (read_lines w path) (\<lambda>f. bind (traverse error_fields f) (\<lambda>rs.
       Inr (map datetime_error rs)))"
proof (cases "read_lines w path")
  case (Inl e)
  then show ?thesis by (simp add: parse_error_log_def)
next
  case (Inr f)
  then show ?thesis
    by (cases "traverse error_fields f")
       (simp_all add: parse_error_log_def error_loop_traverse DataFrame_error_columns)
qed

lemma split_aux_nonempty: "split_aux sep cur s \<noteq> []"
  by (induction s arbitrary: cur) auto

lemma split_nonempty: "0 < length (split s sep)"
  using split_aux_nonempty [of sep "[]" s] by (simp add: split_def)

lemma error_fields_positional:
  "error_fields line = (if positional line then Inr (positional_record line) else Inl IndexError)"
  by (auto simp: error_fields_def positional_def positional_record_def token_def getitem_def
        Let_def split_nonempty)


lemma parse_access_row:
  assumes "parse_access_log_file w path = Inr (df, n)" and "read_lines w path = Inr f"
    and "i < length f"
  shows "\<exists>r u. access_fields (f ! i) = Inr (r, u) \<and> length df = length f
           \<and> df ! i = datetime_access r"
proof -
  from assms(1,2) obtain rus where t: "traverse access_fields f = Inr rus"
    and d: "df = map (datetime_access \<circ> fst) rus"
    by (auto simp: parse_access_rows bind_eq_Inr)
  from traverse_Inr [OF t] assms(3)
  have l: "length rus = length f" and a: "access_fields (f ! i) = Inr (rus ! i)" by auto
  have "access_fields (f ! i) = Inr (fst (rus ! i), snd (rus ! i))" using a by simp
  moreover have "df ! i = datetime_access (fst (rus ! i))" using d l assms(3) by simp
  moreover have "length df = length f" using d l by simp
  ultimately show ?thesis by blast
qed

lemma access_fields_request:
  assumes "access_fields line = Inr (r, u)"
  shows "col_request r = last (request (request_url (split line dq) access_init))
         \<and> col_url r = last (url (request_url (split line dq) access_init))
         \<and> u = errors (request_url (split line dq) access_init)
         \<and> col_user_agent r = drop 5 (split line dq)"
  using assms by (auto simp: access_fields_def Let_def bind_eq_Inr)

lemma access_line_errors:
  assumes "access_fields line = Inr (r, u)"
  shows "\<exists>st'. access_line line st = Inr st' \<and> errors st' = errors st + u"
  using assms by (simp add: access_line_fields access_push_def)

lemma split_aux_skip:
  "c \<notin> set x \<Longrightarrow> split_aux [c] cur (x @ ys) = split_aux [c] (cur @ x) ys"
  by (induction x arbitrary: cur) auto

lemma sample_parts:
  assumes "CHR 0x22 \<notin> set x" and "nl = [] \<or> nl = newline"
  shows "split (x @ sample_tail @ nl) dq =
           [x @ '' - - [29/Sep/2024:00:24:27 +0200] '', ''GET /path HTTP/1.1'', '' 404 162 '',
            ''-'', '' '', ''Go-http-client/1.1'', nl]"
  using assms(2) split_aux_skip [OF assms(1), of "[]"]
  by (auto simp: split_def dq_def sample_tail_def newline_def)

lemma sample_head:
  assumes "CHR '' '' \<notin> set x"
  shows "split (x @ '' - - [29/Sep/2024:00:24:27 +0200] '') sp =
           [x, ''-'', ''-'', ''[29/Sep/2024:00:24:27'', ''+0200]'', []]"
  using split_aux_skip [OF assms, of "[]"]
  by (simp add: split_def sp_def)

lemma sample_request: "split ''GET /path HTTP/1.1'' sp = [''GET'', ''/path'', ''HTTP/1.1'']"
  by code_simp

lemma sample_status: "split '' 404 162 '' sp = [[], ''404'', ''162'', []]"
  by code_simp

lemma sample_datetime: "to_datetime access_format ''[29/Sep/2024:00:24:27'' = Some sample_stamp"
  by code_simp

lemma sample_fields:
  assumes "CHR '' '' \<notin> set x" and "CHR 0x22 \<notin> set x" and "nl = [] \<or> nl = newline"
  shows "access_fields (x @ sample_tail @ nl) =
           Inr (\<lparr>col_ip = x, col_datetime = ''[29/Sep/2024:00:24:27'', col_request = Some ''GET'',
                 col_url = Some ''/path'', col_status_code = ''404'',
                 col_user_agent = [''Go-http-client/1.1'', nl]\<rparr>, 0)"
  by (simp add: access_fields_def sample_parts [OF assms(2,3)] sample_head [OF assms(1)]
        sample_request sample_status token_def getitem_def request_url_def requests_def
        access_init_def Let_def)



lemma traverse_if:
  "traverse (\<lambda>x. if P x then Inr (g x) else Inl e) xs =
     (if \<forall>x\<in>set xs. P x then Inr (map g xs) else Inl e)"
  by (induction xs) auto

lemma traverse_error_fields:
  "traverse error_fields f =
     (if \<forall>line\<in>set f. positional line then Inr (map positional_record f) else Inl IndexError)"
proof -
  have "error_fields = (\<lambda>line. if positional line then Inr (positional_record line) else Inl IndexError)"
    by (rule ext) (rule error_fields_positional)
  then have "traverse error_fields f =
      traverse (\<lambda>line. if positional line then Inr (positional_record line) else Inl IndexError) f"
    by (rule arg_cong)
  then show ?thesis by (simp only: traverse_if)
qed

lemma parse_access_csv [simp]:
  "parse_access_log_file (w\<lparr>csv := c\<rparr>) = parse_access_log_file w"
  by (rule ext) (simp add: parse_access_log_file_def)

lemma parse_error_csv [simp]:
  "parse_error_log (w\<lparr>csv := c\<rparr>) = parse_error_log w"
  by (rule ext) (simp add: parse_error_log_def)

lemma access_files_loop_csv [simp]:
  "access_files_loop (w\<lparr>csv := c\<rparr>) fs acc = access_files_loop w fs acc"
  by (induction fs arbitrary: acc) simp_all

lemma error_files_loop_csv [simp]:
  "error_files_loop (w\<lparr>csv := c\<rparr>) fs acc = error_files_loop w fs acc"
  by (induction fs arbitrary: acc) simp_all

lemma access_files_loop_traverse:
  "access_files_loop w fs acc =
     bind (traverse (parse_access_log_file w) fs) (\<lambda>rs. Inr (acc @ concat (map fst rs)))"
proof (induction fs arbitrary: acc)
  case Nil
  show ?case by simp
next
  case (Cons p fs)
  show ?case
  proof (cases "parse_access_log_file w p")
    case (Inl e)
    then show ?thesis by simp
  next
    case (Inr r)
    then show ?thesis
      by (cases r; cases "traverse (parse_access_log_file w) fs") (simp_all add: Cons.IH)
  qed
qed

lemma error_files_loop_traverse:
  "error_files_loop w fs acc =
     bind (traverse (parse_error_log w) fs) (\<lambda>rs. Inr (acc @ concat rs))"
proof (induction fs arbitrary: acc)
  case Nil
  show ?case by simp
next
  case (Cons p fs)
  show ?case
  proof (cases "parse_error_log w p")
    case (Inl e)
    then show ?thesis by simp
  next
    case (Inr r)
    then show ?thesis
      by (cases "traverse (parse_error_log w) fs") (simp_all add: Cons.IH)
  qed
qed

lemma traverse_stops:
  assumes "\<forall>p\<in>set pre. \<exists>r. g p = Inr r" and "g bad = Inl e"
  shows "traverse g (pre @ bad # post) = Inl e"
  using assms by (induction pre) auto

lemma parse_access_unreadable:
  "read_lines w path = Inl e \<Longrightarrow> parse_access_log_file w path = Inl e"
  by (simp add: parse_access_log_file_def)

lemma parse_error_unreadable:
  "read_lines w path = Inl e \<Longrightarrow> parse_error_log w path = Inl e"
  by (simp add: parse_error_log_def)

lemma parse_all_files_exports:
  assumes "access_files_loop w (glob w (path_join access_logs_directory ''*.log.*'')) [] = Inr adf"
    and "error_files_loop w (glob w (path_join error_logs_directory ''*.log'')) [] = Inr edf"
    and "unwritable w output_csv_access_path = None"
    and "unwritable w output_csv_error_path = None"
  shows "parse_all_files access_logs_directory error_logs_directory
           output_csv_access_path output_csv_error_path w =
         (Inr (), w\<lparr>csv := (csv w)(output_csv_access_path \<mapsto> AccessTable adf,
                                    output_csv_error_path \<mapsto> ErrorTable edf)\<rparr>)"
  using assms by (simp add: parse_all_files_def to_csv_def Let_def)

lemma log_access_1:
  "parse_access_log_file log_world ''logs/access/access.log.1'' = Inr (access_frame_1, 1)"
  by code_simp

lemma log_access_2:
  "parse_access_log_file log_world ''logs/access/access.log.2'' = Inr (access_frame_2, 2)"
  by code_simp

lemma log_error_1: "parse_error_log log_world ''logs/error/error.log'' = Inr error_frame_1"
  by code_simp

lemma log_error_2: "parse_error_log log_world ''logs/error/old.log'' = Inr error_frame_2"
  by code_simp

lemma log_access_glob:
  "glob log_world (path_join ''logs/access'' ''*.log.*'')
     = [''logs/access/access.log.1'', ''logs/access/access.log.2'']"
  by (simp add: log_world_def path_join_def)

lemma log_error_glob:
  "glob log_world (path_join ''logs/error'' ''*.log'')
     = [''logs/error/error.log'', ''logs/error/old.log'']"
  by (simp add: log_world_def path_join_def)

lemma log_writable: "unwritable log_world path = None"
  by (simp add: log_world_def)

text \<open>
  In a file that parses, the request block alone decides the \<open>request\<close> and \<open>url\<close> of a
  record and what its line adds to \<open>errors\<close>.
\<close>

lemma request_fields_of_parsed_line:
  assumes "parse_access_log_file w path = Inr (df, n)" and "read_lines w path = Inr f"
    and "i < length f"
    and "parts = split (f ! i) dq" and "1 < length parts"
    and "log_part = split (parts ! 1) sp" and "1 < length log_part"
  shows "(log_part ! 0 \<in> set requests \<longrightarrow>
            col_request (df ! i) = Some (log_part ! 0)
            \<and> col_url (df ! i) = Some (join sp (butlast (tl log_part)))
            \<and> (\<forall>st. \<exists>st'. access_line (f ! i) st = Inr st' \<and> errors st' = errors st))
       \<and> (log_part ! 0 \<notin> set requests \<longrightarrow>
            col_request (df ! i) = None
            \<and> col_url (df ! i) = Some (join sp log_part)
            \<and> (\<forall>st. \<exists>st'. access_line (f ! i) st = Inr st' \<and> errors st' = errors st + 1))"
proof -
  from parse_access_row [OF assms(1,2,3)] obtain r u where
    a: "access_fields (f ! i) = Inr (r, u)" and d: "df ! i = datetime_access r" by blast
  note q = access_fields_request [OF a]
  note e = access_line_errors [OF a]
  have dr: "col_request (df ! i) = col_request r" "col_url (df ! i) = col_url r"
    using d by (simp_all add: datetime_access_def)
  show ?thesis
  proof (cases "log_part ! 0 \<in> set requests")
    case True
    with q assms(4-7) have "col_request r = Some (log_part ! 0)"
      "col_url r = Some (join sp (butlast (tl log_part)))" "u = 0"
      by (simp_all add: request_url_def Let_def access_init_def)
    with True dr e show ?thesis by simp
  next
    case False
    with q assms(4-7) have "col_request r = None" "col_url r = Some (join sp log_part)" "u = 1"
      by (simp_all add: request_url_def Let_def access_init_def)
    with False dr e show ?thesis by simp
  qed
qed

section \<open>The claims\<close>

text \<open>
  C10. When \<open>sftp.listdir\<close> raises FileNotFoundError, \<open>log_download\<close> logs the error and
  executes \<open>return\<close>; the \<open>finally\<close> block then runs and reads \<open>files_downloaded\<close>, which
  has no value on that path. The call therefore ends with UnboundLocalError instead of
  returning, after the error message has been logged, and the session and the connection
  are left open.
\<close>

theorem log_download_unbound_counter:
  assumes "connect r = None" and "listdir r remote_log_path = Inl FileNotFoundError"
  shows "log_download r remote_log_path local_access_log_path local_error_log_path s =
           (Inl UnboundLocalError,
            s\<lparr>sftp_open := True, client_open := True,
               logged := logged s @ [RemotePathNotFound remote_log_path]\<rparr>)"
  using assms
  by (simp add: log_download_def download_body_def download_finally_def logger_def)

theorem log_download_unbound_counter_witness:
  "connect remote_missing = None \<and> listdir remote_missing ''/var/log/nginx'' = Inl FileNotFoundError
   \<and> fst (log_download remote_missing ''/var/log/nginx'' ''logs/access'' ''logs/error'' local_start)
       = Inl UnboundLocalError
   \<and> logged (snd (log_download remote_missing ''/var/log/nginx'' ''logs/access'' ''logs/error'' local_start))
       = [RemotePathNotFound ''/var/log/nginx'']
   \<and> sftp_open (snd (log_download remote_missing ''/var/log/nginx'' ''logs/access'' ''logs/error'' local_start))"
proof -
  have c: "connect remote_missing = None" by (simp add: remote_missing_def)
  have l: "listdir remote_missing ''/var/log/nginx'' = Inl FileNotFoundError"
    by (simp add: remote_missing_def)
  show ?thesis
    using c l log_download_unbound_counter [OF c l, of "''logs/access''" "''logs/error''" local_start]
    by (simp add: local_start_def)
qed

text \<open>
  C1. The claim: every line of an access log yields a record, and no line makes the parse
  raise. The loop body handles a line without quotes in its \<open>else\<close> branches and then reads
  \<open>parts[0].split(' ')[3]\<close> and \<open>parts[2].split(' ')[1]\<close> without a guard. A file whose
  second line is blank, between two well-formed lines, makes \<open>parse_access_log_file\<close>
  raise IndexError: no record is produced for any of its three lines.
\<close>

theorem blank_line_aborts_parse:
  "read_lines access_world ''logs/access/access.log.3'' = Inr [sample_line, newline, sample_line]
   \<and> parse_access_log_file access_world ''logs/access/access.log.3'' = Inl IndexError"
  by code_simp

text \<open>
  C5. The claim: a line without a quoted segment gives a record whose method and url are
  null and counts two malformed units. On such a line the code does append None to
  \<open>request\<close> and \<open>url\<close> and adds 2 to \<open>errors\<close>, but the same iteration then reads
  \<open>parts[2]\<close>, which does not exist, so the line raises IndexError and the file yields no
  record and no count.
\<close>

theorem no_quote_line_aborts_parse:
  "request_url (split no_quote_line dq) access_init
     = access_init\<lparr>request := [None], url := [None], errors := 2\<rparr>
   \<and> access_line no_quote_line access_init = Inl IndexError
   \<and> parse_access_log_file access_world ''logs/access/access.log.4'' = Inl IndexError"
  by code_simp

text \<open>
  C4. The claim: every line whose first quoted segment has two or more tokens gives a
  record whose \<open>request\<close> and \<open>url\<close> follow from the first token, with \<open>errors\<close> unchanged
  or raised by 1. A line that ends with its request has such a segment, and the request
  block does its part: for \<open>GET /a HTTP/1.1\<close> it appends the method and \<open>/a\<close> and leaves
  \<open>errors\<close> as it is, for \<open>PROPFIND /a HTTP/1.1\<close> it appends None and the whole segment
  and adds 1. The same iteration then reads \<open>parts[2].split(' ')[1]\<close>, which does not
  exist, so the line raises IndexError and the file yields no record and no count.
\<close>

theorem request_only_line_aborts_parse:
  "split (split request_only_line dq ! 1) sp = [''GET'', ''/a'', ''HTTP/1.1'']
   \<and> request_url (split request_only_line dq) access_init
       = access_init\<lparr>request := [Some ''GET''], url := [Some ''/a'']\<rparr>
   \<and> access_line request_only_line access_init = Inl IndexError
   \<and> split (split odd_request_only_line dq ! 1) sp = [''PROPFIND'', ''/a'', ''HTTP/1.1'']
   \<and> request_url (split odd_request_only_line dq) access_init
       = access_init\<lparr>request := [None], url := [Some ''PROPFIND /a HTTP/1.1''], errors := 1\<rparr>
   \<and> access_line odd_request_only_line access_init = Inl IndexError
   \<and> read_lines truncated_world ''logs/access/access.log.5''
       = Inr [sample_line, request_only_line, odd_request_only_line]
   \<and> parse_access_log_file truncated_world ''logs/access/access.log.5'' = Inl IndexError"
  by code_simp

text \<open>
  C7. A line of the shape of the specification's example, with any client address \<open>x\<close>
  free of blanks and quotes and with or without its line terminator \<open>nl\<close>, in a file
  that parses: the record has method GET, url \<open>/path\<close>, status code 404, which is the
  second blank-separated token of the third quote-delimited segment, client address \<open>x\<close>,
  the first token before the first quote, a timestamp that is not null, and as user agent
  the quote-delimited segments from the sixth onward. The line itself never raises.
\<close>

theorem example_line_record:
  assumes "CHR '' '' \<notin> set x" and "CHR 0x22 \<notin> set x" and "nl = [] \<or> nl = newline"
    and "parse_access_log_file w path = Inr (df, n)" and "read_lines w path = Inr f"
    and "i < length f" and "f ! i = x @ sample_tail @ nl"
  shows "df ! i = \<lparr>col_ip = x, col_datetime = Some sample_stamp, col_request = Some ''GET'',
                   col_url = Some ''/path'', col_status_code = ''404'',
                   col_user_agent = [''Go-http-client/1.1'', nl]\<rparr>
         \<and> col_status_code (df ! i) = split (split (f ! i) dq ! 2) sp ! 1
         \<and> col_ip (df ! i) = split (split (f ! i) dq ! 0) sp ! 0
         \<and> col_datetime (df ! i) \<noteq> None
         \<and> col_user_agent (df ! i) = drop 5 (split (f ! i) dq)
         \<and> (\<forall>st. \<exists>st'. access_line (f ! i) st = Inr st')"
proof -
  note s = sample_fields [OF assms(1,2,3)]
  from parse_access_row [OF assms(4,5,6)] obtain r u where
    a: "access_fields (f ! i) = Inr (r, u)" and d: "df ! i = datetime_access r" by blast
  from a s assms(7) have r: "r = \<lparr>col_ip = x, col_datetime = ''[29/Sep/2024:00:24:27'',
      col_request = Some ''GET'', col_url = Some ''/path'', col_status_code = ''404'',
      col_user_agent = [''Go-http-client/1.1'', nl]\<rparr>" by simp
  have 1: "df ! i = \<lparr>col_ip = x, col_datetime = Some sample_stamp, col_request = Some ''GET'',
                   col_url = Some ''/path'', col_status_code = ''404'',
                   col_user_agent = [''Go-http-client/1.1'', nl]\<rparr>"
    using d r by (simp add: datetime_access_def sample_datetime)
  have 2: "split (split (f ! i) dq ! 2) sp ! 1 = ''404''"
    by (simp add: assms(7) sample_parts [OF assms(2,3)] sample_status)
  have 3: "split (split (f ! i) dq ! 0) sp ! 0 = x"
    by (simp add: assms(7) sample_parts [OF assms(2,3)] sample_head [OF assms(1)])
  have 4: "drop 5 (split (f ! i) dq) = [''Go-http-client/1.1'', nl]"
    by (simp add: assms(7) sample_parts [OF assms(2,3)])
  have 5: "\<forall>st. \<exists>st'. access_line (f ! i) st = Inr st'"
    using access_line_errors [OF a] by blast
  show ?thesis using 1 2 3 4 5 by simp
qed

theorem example_line_record_witness:
  "access_frame_1 ! 0 = \<lparr>col_ip = ''x'', col_datetime = Some sample_stamp,
       col_request = Some ''GET'', col_url = Some ''/path'', col_status_code = ''404'',
       col_user_agent = [''Go-http-client/1.1'', newline]\<rparr>
   \<and> parse_access_log_file access_world ''logs/access/access.log.1'' = Inr (access_frame_1, 1)
   \<and> col_datetime (access_frame_1 ! 0) \<noteq> None
   \<and> col_user_agent (access_frame_1 ! 0) = drop 5 (split sample_line dq)"
proof -
  let ?f = "[sample_line, odd_request_line, bad_date_line]"
  have x: "CHR '' '' \<notin> set ''x''" "CHR 0x22 \<notin> set ''x''" by simp_all
  have nl: "newline = [] \<or> newline = newline" by simp
  have p: "parse_access_log_file access_world ''logs/access/access.log.1'' = Inr (access_frame_1, 1)"
    by code_simp
  have r: "read_lines access_world ''logs/access/access.log.1'' = Inr ?f"
    by (simp add: access_world_def access_dir_def)
  have i: "0 < length ?f" by simp
  have l: "?f ! 0 = ''x'' @ sample_tail @ newline"
    by (simp add: sample_line_def sample_tail_def)
  note t = example_line_record [OF x nl p r i l]
  from t have a: "access_frame_1 ! 0 = \<lparr>col_ip = ''x'', col_datetime = Some sample_stamp,
       col_request = Some ''GET'', col_url = Some ''/path'', col_status_code = ''404'',
       col_user_agent = [''Go-http-client/1.1'', newline]\<rparr>" by blast
  from t have b: "col_datetime (access_frame_1 ! 0) \<noteq> None" by blast
  from t have "col_user_agent (access_frame_1 ! 0) = drop 5 (split (?f ! 0) dq)" by blast
  then have c: "col_user_agent (access_frame_1 ! 0) = drop 5 (split sample_line dq)"
    by (simp only: nth_Cons_0)
  show ?thesis by (intro conjI a b c p)
qed



text \<open>
  C2. The claim: \<open>parse_error_log\<close> never raises on a line outside its grammar. It does:
  a line as nginx writes it has five fields separated by \<open>", "\<close>, the read of
  \<open>parts[5]\<close> finds nothing, and the file is abandoned with IndexError.
\<close>

theorem short_error_line_raises:
  "length (split error_short_line '', '') = 5
   \<and> read_lines log_world ''logs/error/nginx.log'' = Inr [error_short_line]
   \<and> parse_error_log log_world ''logs/error/nginx.log'' = Inl IndexError"
  by code_simp

text \<open>
  C2, as amended. A line fits the grammar when it has six or more fields, its first field
  has four or more blank-separated tokens of which the fourth contains \<open>#\<close>, its second
  field contains a colon, and its third to sixth fields contain \<open>": "\<close>. When every
  line of the file fits, \<open>parse_error_log\<close> returns one record per line, read off the
  fixed positions, with the date converted; when some line does not fit, it raises
  IndexError and returns no record.
\<close>

theorem error_log_positional:
  assumes "read_lines w path = Inr f"
  shows "parse_error_log w path =
           (if \<forall>line\<in>set f. positional line
            then Inr (map (datetime_error \<circ> positional_record) f)
            else Inl IndexError)"
  by (simp add: parse_error_rows assms traverse_error_fields)

theorem error_log_positional_witness:
  "read_lines log_world ''logs/error/error.log'' = Inr [error_ok_line, error_bad_date_line]
   \<and> positional error_ok_line \<and> positional error_bad_date_line
   \<and> parse_error_log log_world ''logs/error/error.log'' = Inr error_frame_1
   \<and> map (datetime_error \<circ> positional_record) [error_ok_line, error_bad_date_line] = error_frame_1"
proof -
  let ?g = "[error_ok_line, error_bad_date_line]"
  have r: "read_lines log_world ''logs/error/error.log'' = Inr ?g"
    by (simp add: log_world_def log_dir_def)
  have p: "\<forall>line\<in>set ?g. positional line" by code_simp
  have m: "map (datetime_error \<circ> positional_record) ?g = error_frame_1" by code_simp
  from error_log_positional [OF r] p m
  have "parse_error_log log_world ''logs/error/error.log'' = Inr error_frame_1" by simp
  moreover from p have "positional error_ok_line" "positional error_bad_date_line" by simp_all
  ultimately show ?thesis using r m by blast
qed

text \<open>
  C8. When the access listing is \<open>[F1, F2]\<close> and the error listing is \<open>[G1, G2]\<close>, and these
  files parse, the combined access table is the records of \<open>F1\<close> followed by the records
  of \<open>F2\<close>, and likewise for the error table: every record is kept, in the order of its
  file and of its line, nothing is removed and nothing is sorted. These two tables are what
  \<open>parse_all_files\<close> exports.
\<close>

theorem aggregation_order:
  assumes "glob w (path_join access_logs_directory ''*.log.*'') = [F1, F2]"
    and "parse_access_log_file w F1 = Inr (d1, n1)" and "parse_access_log_file w F2 = Inr (d2, n2)"
    and "glob w (path_join error_logs_directory ''*.log'') = [G1, G2]"
    and "parse_error_log w G1 = Inr e1" and "parse_error_log w G2 = Inr e2"
    and "unwritable w output_csv_access_path = None"
    and "unwritable w output_csv_error_path = None"
  shows "access_files_loop w [F1, F2] [] = Inr (d1 @ d2)
       \<and> error_files_loop w [G1, G2] [] = Inr (e1 @ e2)
       \<and> parse_all_files access_logs_directory error_logs_directory
            output_csv_access_path output_csv_error_path w =
           (Inr (), w\<lparr>csv := (csv w)(output_csv_access_path \<mapsto> AccessTable (d1 @ d2),
                                      output_csv_error_path \<mapsto> ErrorTable (e1 @ e2))\<rparr>)"
  using assms by (simp add: parse_all_files_def to_csv_def Let_def)

theorem aggregation_order_witness:
  "access_files_loop log_world [''logs/access/access.log.1'', ''logs/access/access.log.2''] []
     = Inr (access_frame_1 @ access_frame_2)
   \<and> error_files_loop log_world [''logs/error/error.log'', ''logs/error/old.log''] []
     = Inr (error_frame_1 @ error_frame_2)
   \<and> parse_all_files ''logs/access'' ''logs/error'' ''out/access.csv'' ''out/error.csv'' log_world
     = (Inr (), log_world\<lparr>csv := (csv log_world)
          (''out/access.csv'' \<mapsto> AccessTable (access_frame_1 @ access_frame_2),
           ''out/error.csv'' \<mapsto> ErrorTable (error_frame_1 @ error_frame_2))\<rparr>)"
  by (rule aggregation_order [OF log_access_glob log_access_1 log_access_2 log_error_glob
        log_error_1 log_error_2 log_writable log_writable])

text \<open>
  C3. The claim: a file that cannot be opened is skipped and the batch goes on. In
  \<open>parse_all_files\<close> nothing catches the exception of \<open>open\<close>: with an access listing
  whose second path is missing, the call ends with FileNotFoundError, the third file, which
  is readable, is not parsed, and no export is written.
\<close>

theorem unreadable_file_fails_batch:
  "read_lines missing_access_world ''logs/access/access.log.0'' = Inl FileNotFoundError
   \<and> parse_access_log_file missing_access_world ''logs/access/access.log.1'' = Inr (access_frame_1, 1)
   \<and> glob missing_access_world (path_join ''logs/access'' ''*.log.*'')
       = [''logs/access/access.log.2'', ''logs/access/access.log.0'', ''logs/access/access.log.1'']
   \<and> fst (parse_all_files ''logs/access'' ''logs/error'' ''out/access.csv'' ''out/error.csv''
            missing_access_world) = Inl FileNotFoundError
   \<and> csv (snd (parse_all_files ''logs/access'' ''logs/error'' ''out/access.csv'' ''out/error.csv''
            missing_access_world)) ''out/access.csv'' = None"
  by code_simp

text \<open>
  C3, as amended. A file that cannot be opened is fatal for the whole batch. If a path of
  the access listing cannot be opened and the paths before it parse, \<open>parse_all_files\<close>
  ends with the exception of \<open>open\<close>, parses none of the later files and writes no export.
  If the access stage has completed and a path of the error listing cannot be opened, the
  paths before it parsing, the call ends with that exception; the access export has been
  written and the error export has not.
\<close>

theorem unreadable_file_aborts_batch:
  assumes "read_lines w bad = Inl e"
  shows "(glob w (path_join access_logs_directory ''*.log.*'') = pre @ bad # post
          \<and> (\<forall>p\<in>set pre. \<exists>r. parse_access_log_file w p = Inr r)
          \<longrightarrow> parse_all_files access_logs_directory error_logs_directory
                 output_csv_access_path output_csv_error_path w = (Inl e, w))
       \<and> (access_files_loop w (glob w (path_join access_logs_directory ''*.log.*'')) [] = Inr adf
          \<and> unwritable w output_csv_access_path = None
          \<and> glob w (path_join error_logs_directory ''*.log'') = pre @ bad # post
          \<and> (\<forall>p\<in>set pre. \<exists>r. parse_error_log w p = Inr r)
          \<longrightarrow> parse_all_files access_logs_directory error_logs_directory
                 output_csv_access_path output_csv_error_path w =
               (Inl e, w\<lparr>csv := (csv w)(output_csv_access_path \<mapsto> AccessTable adf)\<rparr>))"
proof (intro conjI impI)
  assume a: "glob w (path_join access_logs_directory ''*.log.*'') = pre @ bad # post
          \<and> (\<forall>p\<in>set pre. \<exists>r. parse_access_log_file w p = Inr r)"
  then have "traverse (parse_access_log_file w) (pre @ bad # post) = Inl e"
    using parse_access_unreadable [OF assms] by (intro traverse_stops) simp_all
  with a show "parse_all_files access_logs_directory error_logs_directory
                 output_csv_access_path output_csv_error_path w = (Inl e, w)"
    by (simp add: parse_all_files_def Let_def access_files_loop_traverse)
next
  assume a: "access_files_loop w (glob w (path_join access_logs_directory ''*.log.*'')) [] = Inr adf
          \<and> unwritable w output_csv_access_path = None
          \<and> glob w (path_join error_logs_directory ''*.log'') = pre @ bad # post
          \<and> (\<forall>p\<in>set pre. \<exists>r. parse_error_log w p = Inr r)"
  then have "traverse (parse_error_log w) (pre @ bad # post) = Inl e"
    using parse_error_unreadable [OF assms] by (intro traverse_stops) simp_all
  with a show "parse_all_files access_logs_directory error_logs_directory
                 output_csv_access_path output_csv_error_path w =
               (Inl e, w\<lparr>csv := (csv w)(output_csv_access_path \<mapsto> AccessTable adf)\<rparr>)"
    by (simp add: parse_all_files_def Let_def to_csv_def error_files_loop_traverse)
qed

theorem unreadable_file_aborts_batch_witness:
  "read_lines missing_access_world ''logs/access/access.log.0'' = Inl FileNotFoundError
   \<and> parse_all_files ''logs/access'' ''logs/error'' ''out/access.csv'' ''out/error.csv''
         missing_access_world = (Inl FileNotFoundError, missing_access_world)
   \<and> read_lines missing_error_world ''logs/error/gone.log'' = Inl FileNotFoundError
   \<and> parse_all_files ''logs/access'' ''logs/error'' ''out/access.csv'' ''out/error.csv''
         missing_error_world =
       (Inl FileNotFoundError,
        missing_error_world\<lparr>csv := (csv missing_error_world)
          (''out/access.csv'' \<mapsto> AccessTable (access_frame_1 @ access_frame_2))\<rparr>)"
proof -
  have ma: "missing_access_world = log_world\<lparr>glob := glob missing_access_world\<rparr>"
    and me: "missing_error_world = log_world\<lparr>glob := glob missing_error_world\<rparr>"
    by (simp_all add: missing_access_world_def missing_error_world_def)
  have r1: "read_lines missing_access_world ''logs/access/access.log.0'' = Inl FileNotFoundError"
    by (simp add: missing_access_world_def log_world_def log_dir_def)
  have g1: "glob missing_access_world (path_join ''logs/access'' ''*.log.*'')
      = [''logs/access/access.log.2''] @ ''logs/access/access.log.0'' # [''logs/access/access.log.1'']"
    by (simp add: missing_access_world_def path_join_def)
  have p1: "\<forall>p\<in>set [''logs/access/access.log.2'']. \<exists>r. parse_access_log_file missing_access_world p = Inr r"
    using log_access_2 by (simp add: missing_access_world_def parse_access_log_file_def)
  have r2: "read_lines missing_error_world ''logs/error/gone.log'' = Inl FileNotFoundError"
    by (simp add: missing_error_world_def log_world_def log_dir_def)
  have g2: "glob missing_error_world (path_join ''logs/error'' ''*.log'')
      = [''logs/error/error.log''] @ ''logs/error/gone.log'' # [''logs/error/old.log'']"
    by (simp add: missing_error_world_def path_join_def)
  have p2: "\<forall>p\<in>set [''logs/error/error.log'']. \<exists>r. parse_error_log missing_error_world p = Inr r"
    using log_error_1 by (simp add: missing_error_world_def parse_error_log_def)
  have a2: "access_files_loop missing_error_world
      (glob missing_error_world (path_join ''logs/access'' ''*.log.*'')) []
      = Inr (access_frame_1 @ access_frame_2)"
    using log_access_1 log_access_2
    by (simp add: missing_error_world_def path_join_def parse_access_log_file_def log_world_def)
  have u2: "unwritable missing_error_world ''out/access.csv'' = None"
    by (simp add: missing_error_world_def log_world_def)
  from unreadable_file_aborts_batch [OF r1] g1 p1
  have A: "parse_all_files ''logs/access'' ''logs/error'' ''out/access.csv'' ''out/error.csv''
         missing_access_world = (Inl FileNotFoundError, missing_access_world)" by blast
  from unreadable_file_aborts_batch [OF r2] a2 u2 g2 p2
  have B: "parse_all_files ''logs/access'' ''logs/error'' ''out/access.csv'' ''out/error.csv''
         missing_error_world =
       (Inl FileNotFoundError,
        missing_error_world\<lparr>csv := (csv missing_error_world)
          (''out/access.csv'' \<mapsto> AccessTable (access_frame_1 @ access_frame_2))\<rparr>)" by blast
  show ?thesis by (intro conjI r1 r2 A B)
qed

text \<open>
  C9. Whatever the output paths hold before a run, after a run that completes the error
  export is the table of this run's error files, and the access export, when its path
  differs from that of the error export, is the table of this run's access files; the
  number of data rows of each is the number of records of this run's batch. Running
  again on the result leaves the exports as they are: nothing is appended.
\<close>

theorem export_overwrites:
  assumes "parse_all_files access_logs_directory error_logs_directory
             output_csv_access_path output_csv_error_path w = (Inr (), w')"
  shows "\<exists>adf edf.
           access_files_loop w (glob w (path_join access_logs_directory ''*.log.*'')) [] = Inr adf
         \<and> error_files_loop w (glob w (path_join error_logs_directory ''*.log'')) [] = Inr edf
         \<and> csv w' output_csv_error_path = Some (ErrorTable edf)
         \<and> map_option data_rows (csv w' output_csv_error_path) = Some (length edf)
         \<and> (output_csv_access_path \<noteq> output_csv_error_path \<longrightarrow>
              csv w' output_csv_access_path = Some (AccessTable adf)
              \<and> map_option data_rows (csv w' output_csv_access_path) = Some (length adf))
         \<and> parse_all_files access_logs_directory error_logs_directory
              output_csv_access_path output_csv_error_path w' = (Inr (), w')"
proof -
  from assms obtain adf where a: "access_files_loop w (glob w (path_join access_logs_directory ''*.log.*'')) [] = Inr adf"
    by (auto simp: parse_all_files_def Let_def split: sum.splits)
  from assms a have ua: "unwritable w output_csv_access_path = None"
    by (auto simp: parse_all_files_def Let_def to_csv_def split: sum.splits option.splits)
  from assms a ua obtain edf where b: "error_files_loop w (glob w (path_join error_logs_directory ''*.log'')) [] = Inr edf"
    by (auto simp: parse_all_files_def Let_def to_csv_def split: sum.splits)
  from assms a ua b have ue: "unwritable w output_csv_error_path = None"
    and w': "w' = w\<lparr>csv := (csv w)(output_csv_access_path \<mapsto> AccessTable adf,
                                    output_csv_error_path \<mapsto> ErrorTable edf)\<rparr>"
    by (auto simp: parse_all_files_def Let_def to_csv_def split: option.splits)
  have again: "parse_all_files access_logs_directory error_logs_directory
              output_csv_access_path output_csv_error_path w' = (Inr (), w')"
    by (simp add: w' parse_all_files_def Let_def to_csv_def a b ua ue)
  show ?thesis
    by (intro exI [of _ adf] exI [of _ edf] conjI impI a b again) (simp_all add: w')
qed

theorem export_overwrites_witness:
  "map_option data_rows (csv rerun_world ''out/access.csv'') = Some 7
   \<and> map_option data_rows (csv rerun_world ''out/error.csv'') = Some 5
   \<and> fst (parse_all_files ''logs/access'' ''logs/error'' ''out/access.csv'' ''out/error.csv''
            rerun_world) = Inr ()
   \<and> map_option data_rows (csv (snd (parse_all_files ''logs/access'' ''logs/error''
            ''out/access.csv'' ''out/error.csv'' rerun_world)) ''out/access.csv'') = Some 4
   \<and> map_option data_rows (csv (snd (parse_all_files ''logs/access'' ''logs/error''
            ''out/access.csv'' ''out/error.csv'' rerun_world)) ''out/error.csv'') = Some 3"
proof -
  let ?w = "rerun_world\<lparr>csv := (csv rerun_world)
          (''out/access.csv'' \<mapsto> AccessTable (access_frame_1 @ access_frame_2),
           ''out/error.csv'' \<mapsto> ErrorTable (error_frame_1 @ error_frame_2))\<rparr>"
  have a: "access_files_loop rerun_world
      (glob rerun_world (path_join ''logs/access'' ''*.log.*'')) []
      = Inr (access_frame_1 @ access_frame_2)"
    using log_access_1 log_access_2 log_access_glob by (simp add: rerun_world_def)
  have b: "error_files_loop rerun_world
      (glob rerun_world (path_join ''logs/error'' ''*.log'')) []
      = Inr (error_frame_1 @ error_frame_2)"
    using log_error_1 log_error_2 log_error_glob by (simp add: rerun_world_def)
  have u: "unwritable rerun_world ''out/access.csv'' = None"
    "unwritable rerun_world ''out/error.csv'' = None"
    by (simp_all add: rerun_world_def log_world_def)
  have run: "parse_all_files ''logs/access'' ''logs/error'' ''out/access.csv'' ''out/error.csv''
      rerun_world = (Inr (), ?w)"
    by (rule parse_all_files_exports [OF a b u])
  have d: "''out/access.csv'' \<noteq> ''out/error.csv''" by simp
  from export_overwrites [OF run] a b d
  have "map_option data_rows (csv ?w ''out/error.csv'') = Some (length (error_frame_1 @ error_frame_2))"
    "map_option data_rows (csv ?w ''out/access.csv'') = Some (length (access_frame_1 @ access_frame_2))"
    by auto
  then have after: "map_option data_rows (csv ?w ''out/access.csv'') = Some 4"
    "map_option data_rows (csv ?w ''out/error.csv'') = Some 3"
    by (simp_all add: access_frame_1_def access_frame_2_def error_frame_1_def error_frame_2_def)
  have before: "map_option data_rows (csv rerun_world ''out/access.csv'') = Some 7"
    "map_option data_rows (csv rerun_world ''out/error.csv'') = Some 5"
    by (simp_all add: rerun_world_def access_frame_1_def access_frame_2_def error_frame_1_def
          error_frame_2_def)
  show ?thesis using before after by (simp add: run)
qed

end
